theory Spec2Isabelle
  imports Main
begin

section \<open>Automation job orchestration: data model\<close>

text \<open>
  The development follows \<^verbatim>\<open>api/routers/automation.py\<close> and the scheduling advisor of
  \<^verbatim>\<open>api/routers/intelligence.py\<close>. The database table \<^verbatim>\<open>automation_jobs\<close>, the table
  \<^verbatim>\<open>clients\<close>, the Redis lists and the in-process connection registry are the fields of one
  explicit state; every handler takes the state and returns its answer with the new state.
  Clock readings (\<^verbatim>\<open>datetime.utcnow()\<close>, SQL \<^verbatim>\<open>NOW()\<close>) and the fresh identifier of
  \<^verbatim>\<open>uuid.uuid4()\<close> are arguments of the handlers.
\<close>

type_synonym uuid = string
  \<comment> \<open>an identifier in its textual form, as \<^verbatim>\<open>str(job_id)\<close> gives it\<close>

type_synonym datetime = int
  \<comment> \<open>a naive UTC timestamp, counted in microseconds\<close>

type_synonym json = string
  \<comment> \<open>an opaque document as \<^verbatim>\<open>json.dumps\<close> stores it; never interpreted here\<close>

type_synonym websocket = nat
  \<comment> \<open>the identity of a connection object\<close>

datatype JobStatus = PENDING | QUEUED | RUNNING | PAUSED | COMPLETED | FAILED | CANCELLED

datatype JobType =
    MENU_BUILD | MENU_SYNC | ITEM_CREATE | ITEM_UPDATE | MODIFIER_SYNC
  | HEALTH_CHECK | GOLDEN_COPY | CLASSIFICATION | REPORT_GENERATION | BACKUP

datatype JobPriority = LOW | NORMAL | HIGH | CRITICAL

fun priority_value :: "JobPriority \<Rightarrow> string" where
  "priority_value LOW = ''0''"
| "priority_value NORMAL = ''1''"
| "priority_value HIGH = ''2''"
| "priority_value CRITICAL = ''3''"

text \<open>
  One row of \<^verbatim>\<open>automation_jobs\<close>. The table's DDL is not among the sources; the columns are
  those the handlers read and write, and a column that an \<^verbatim>\<open>INSERT\<close> does not list starts
  as \<^verbatim>\<open>NULL\<close> (\<open>None\<close>), the two counters as 0 (the defaults of \<^verbatim>\<open>JobResponse\<close>).
\<close>

record job_row =
  row_id :: uuid
  client_id :: uuid
  job_type :: JobType
  status :: JobStatus
  priority :: JobPriority
  config :: json
  result :: "json option"
  error :: "string option"
  progress :: int
  progress_message :: "string option"
  scheduled_at :: "datetime option"
  started_at :: "datetime option"
  completed_at :: "datetime option"
  created_at :: datetime
  updated_at :: datetime
  retry_count :: int
  max_retries :: int
  retry_on_failure :: bool
  timeout_seconds :: int
  depends_on :: "uuid list"
  metadata :: json

record CreateJobRequest =
  rq_client_id :: uuid
  rq_job_type :: JobType
  rq_priority :: JobPriority
  rq_config :: json
  rq_scheduled_at :: "datetime option"
  rq_depends_on :: "uuid list option"
  rq_retry_on_failure :: bool
  rq_max_retries :: int
  rq_timeout_seconds :: int
  rq_metadata :: json

record UpdateJobRequest =
  up_status :: "JobStatus option"
  up_priority :: "JobPriority option"
  up_config :: "json option"
  up_scheduled_at :: "datetime option"
  up_metadata :: "json option"

text \<open>The message built by \<^verbatim>\<open>broadcast_job_update\<close>; its type field is always \<^verbatim>\<open>job_update\<close>.\<close>

record message =
  m_type :: string
  m_job_id :: string
  m_status :: JobStatus
  m_progress :: int
  m_progress_message :: "string option"
  m_timestamp :: datetime

text \<open>
  The state. \<open>sent_log\<close> records the effect of \<^verbatim>\<open>broadcast_to_client\<close>: one entry per call,
  holding the message and, in order, the connections on which \<^verbatim>\<open>send_json\<close> was called.
\<close>

record system =
  automation_jobs :: "uuid \<rightharpoonup> job_row"
  clients :: "uuid \<rightharpoonup> string"
  redis :: "string \<rightharpoonup> string list"
  active_connections :: "string \<rightharpoonup> websocket list"
  sent_log :: "(message \<times> websocket list) list"

datatype failure =
    HTTPException nat string
  | RequestValidationError
  | UniqueViolationError
  | ValueError

datatype response =
    JobResponse job_row "string option"
  | CancelResponse string uuid
  | RetryResponse string uuid int

section \<open>The connection manager\<close>

definition connect :: "websocket \<Rightarrow> string \<Rightarrow> system \<Rightarrow> system" where
  "connect ws cid s =
     (case active_connections s cid of
        None \<Rightarrow> s\<lparr>active_connections := (active_connections s)(cid \<mapsto> [ws])\<rparr>
      | Some cs \<Rightarrow> s\<lparr>active_connections := (active_connections s)(cid \<mapsto> cs @ [ws])\<rparr>)"

text \<open>\<^verbatim>\<open>list.remove\<close> deletes the first occurrence and raises \<^verbatim>\<open>ValueError\<close> when there is none.\<close>

definition disconnect :: "websocket \<Rightarrow> string \<Rightarrow> system \<Rightarrow> failure + system" where
  "disconnect ws cid s =
     (case active_connections s cid of
        None \<Rightarrow> Inr s
      | Some cs \<Rightarrow>
          if ws \<notin> set cs then Inl ValueError
          else if remove1 ws cs = []
            then Inr (s\<lparr>active_connections := (active_connections s)(cid := None)\<rparr>)
            else Inr (s\<lparr>active_connections := (active_connections s)(cid \<mapsto> remove1 ws cs)\<rparr>))"

text \<open>
  \<^verbatim>\<open>connections = self.active_connections.get(client_id, [])\<close> is the registry's own list
  object when the key is present, and a new empty list otherwise;
  \<^verbatim>\<open>connections.extend(...)\<close> then appends the global connections to that object. So with the
  key present the registry entry itself grows; with the key absent only the temporary list does.
  A failing \<^verbatim>\<open>send_json\<close> is caught and logged, so every connection of the list is tried.
\<close>

definition broadcast_to_client :: "string \<Rightarrow> message \<Rightarrow> system \<Rightarrow> system" where
  "broadcast_to_client cid msg s =
     (let global = (case active_connections s ''global'' of None \<Rightarrow> [] | Some g \<Rightarrow> g)
      in case active_connections s cid of
           None \<Rightarrow> s\<lparr>sent_log := sent_log s @ [(msg, global)]\<rparr>
         | Some cs \<Rightarrow>
             s\<lparr>active_connections := (active_connections s)(cid \<mapsto> cs @ global),
               sent_log := sent_log s @ [(msg, cs @ global)]\<rparr>)"

text \<open>
  \<^verbatim>\<open>broadcast_job_update(job)\<close> reads \<^verbatim>\<open>job["id"]\<close>, \<^verbatim>\<open>job["client_id"]\<close>,
  \<^verbatim>\<open>job["status"]\<close>, \<^verbatim>\<open>job.get("progress", 0)\<close> and \<^verbatim>\<open>job.get("progress_message")\<close>;
  the callers pass the last two as options (\<open>None\<close> when the key is absent).
\<close>

definition job_update_message ::
  "datetime \<Rightarrow> uuid \<Rightarrow> JobStatus \<Rightarrow> int option \<Rightarrow> string option \<Rightarrow> message" where
  "job_update_message ts jid st prog pmsg =
     \<lparr>m_type = ''job_update'', m_job_id = jid, m_status = st,
      m_progress = (case prog of None \<Rightarrow> 0 | Some p \<Rightarrow> p),
      m_progress_message = pmsg, m_timestamp = ts\<rparr>"

definition broadcast_job_update ::
  "datetime \<Rightarrow> uuid \<Rightarrow> uuid \<Rightarrow> JobStatus \<Rightarrow> int option \<Rightarrow> string option \<Rightarrow> system \<Rightarrow> system" where
  "broadcast_job_update ts jid cid st prog pmsg s =
     broadcast_to_client cid (job_update_message ts jid st prog pmsg) s"

text \<open>The connections registered under a key, none when the key is absent.\<close>

definition connections_of :: "system \<Rightarrow> string \<Rightarrow> websocket list" where
  "connections_of s key = (case active_connections s key of None \<Rightarrow> [] | Some cs \<Rightarrow> cs)"

section \<open>Job queue handlers\<close>

definition lpush :: "string \<Rightarrow> string \<Rightarrow> (string \<rightharpoonup> string list) \<Rightarrow> (string \<rightharpoonup> string list)" where
  "lpush key v r = r(key \<mapsto> v # (case r key of None \<Rightarrow> [] | Some vs \<Rightarrow> vs))"

definition job_queue :: "JobPriority \<Rightarrow> string" where
  "job_queue p = ''job_queue:'' @ priority_value p"

text \<open>
  \<^verbatim>\<open>cancel_job\<close>: one \<^verbatim>\<open>UPDATE ... WHERE id = $1 AND status IN ('pending', 'queued',
  'running', 'paused') RETURNING *\<close>; no returned row raises status 400.
\<close>

definition cancel_job :: "datetime \<Rightarrow> datetime \<Rightarrow> uuid \<Rightarrow> system \<Rightarrow> (failure + response) \<times> system" where
  "cancel_job now ts jid s =
     (case automation_jobs s jid of
        None \<Rightarrow> (Inl (HTTPException 400 ''Job cannot be cancelled or not found''), s)
      | Some r \<Rightarrow>
          if status r \<in> {PENDING, QUEUED, RUNNING, PAUSED} then
            (let row = r\<lparr>status := CANCELLED, completed_at := Some now, updated_at := now\<rparr>;
                 s1 = s\<lparr>automation_jobs := (automation_jobs s)(jid \<mapsto> row)\<rparr>;
                 s2 = broadcast_job_update ts jid (client_id row) CANCELLED None None s1
             in (Inr (CancelResponse ''cancelled'' jid), s2))
          else (Inl (HTTPException 400 ''Job cannot be cancelled or not found''), s))"

text \<open>
  \<^verbatim>\<open>retry_job\<close>: one \<^verbatim>\<open>UPDATE ... WHERE id = $1 AND status IN ('failed', 'cancelled')
  RETURNING *\<close>, then \<^verbatim>\<open>lpush\<close> on the list of the row's priority, then the broadcast.
\<close>

definition retry_job :: "datetime \<Rightarrow> datetime \<Rightarrow> uuid \<Rightarrow> system \<Rightarrow> (failure + response) \<times> system" where
  "retry_job now ts jid s =
     (case automation_jobs s jid of
        None \<Rightarrow> (Inl (HTTPException 400 ''Job cannot be retried or not found''), s)
      | Some r \<Rightarrow>
          if status r \<in> {FAILED, CANCELLED} then
            (let row = r\<lparr>status := QUEUED, started_at := None, completed_at := None,
                         error := None, result := None,
                         retry_count := retry_count r + 1, updated_at := now\<rparr>;
                 s1 = s\<lparr>automation_jobs := (automation_jobs s)(jid \<mapsto> row)\<rparr>;
                 s2 = s1\<lparr>redis := lpush (job_queue (priority row)) jid (redis s1)\<rparr>;
                 s3 = broadcast_job_update ts jid (client_id row) QUEUED None None s2
             in (Inr (RetryResponse ''requeued'' jid (retry_count row)), s3))
          else (Inl (HTTPException 400 ''Job cannot be retried or not found''), s))"

text \<open>
  \<^verbatim>\<open>create_job\<close>. \<open>t285\<close> and \<open>t299\<close> are the two readings of \<^verbatim>\<open>datetime.utcnow()\<close>
  (the default of \<^verbatim>\<open>scheduled_at\<close>, and the comparison of the \<^verbatim>\<open>elif\<close>), \<open>now\<close> is SQL
  \<^verbatim>\<open>NOW()\<close>, \<open>ts\<close> the timestamp of the broadcast, \<open>new_id\<close> the value of \<^verbatim>\<open>uuid.uuid4()\<close>.
  An empty \<^verbatim>\<open>depends_on\<close> is as falsy as a missing one.
\<close>

definition deps_of :: "CreateJobRequest \<Rightarrow> uuid list" where
  "deps_of rq = (case rq_depends_on rq of None \<Rightarrow> [] | Some ds \<Rightarrow> ds)"

text \<open>
  \<^verbatim>\<open>SELECT COUNT(*) FROM automation_jobs WHERE id = ANY($1) AND status != 'completed'\<close>:
  the rows whose id is listed, each counted once.
\<close>

definition incomplete_count :: "(uuid \<rightharpoonup> job_row) \<Rightarrow> uuid list \<Rightarrow> nat" where
  "incomplete_count jobs ds =
     length (filter (\<lambda>d. case jobs d of None \<Rightarrow> False | Some r \<Rightarrow> status r \<noteq> COMPLETED)
               (remdups ds))"

definition initial_status_of ::
  "(uuid \<rightharpoonup> job_row) \<Rightarrow> uuid list \<Rightarrow> datetime \<Rightarrow> datetime \<Rightarrow> JobStatus" where
  "initial_status_of jobs ds scheduled t299 =
     (if ds \<noteq> [] then
        (if incomplete_count jobs ds > 0 then PENDING else QUEUED)
      else if scheduled \<le> t299 then QUEUED
      else PENDING)"

definition create_job ::
  "datetime \<Rightarrow> datetime \<Rightarrow> datetime \<Rightarrow> datetime \<Rightarrow> uuid \<Rightarrow> CreateJobRequest \<Rightarrow> system
     \<Rightarrow> (failure + response) \<times> system" where
  "create_job t285 t299 now ts new_id rq s =
     (case clients s (rq_client_id rq) of
        None \<Rightarrow> (Inl (HTTPException 404 ''Client not found''), s)
      | Some client_name \<Rightarrow>
          (case find (\<lambda>d. automation_jobs s d = None) (deps_of rq) of
             Some dep_id \<Rightarrow>
               (Inl (HTTPException 400 (''Dependency job '' @ dep_id @ '' not found'')), s)
           | None \<Rightarrow>
               (let scheduled = (case rq_scheduled_at rq of Some t \<Rightarrow> t | None \<Rightarrow> t285);
                    initial_status = initial_status_of (automation_jobs s) (deps_of rq) scheduled t299
                in if new_id \<in> dom (automation_jobs s) then (Inl UniqueViolationError, s)
                   else
                     (let row = \<lparr>row_id = new_id, client_id = rq_client_id rq,
                                 job_type = rq_job_type rq, status = initial_status,
                                 priority = rq_priority rq, config = rq_config rq,
                                 result = None, error = None, progress = 0,
                                 progress_message = None, scheduled_at = Some scheduled,
                                 started_at = None, completed_at = None,
                                 created_at = now, updated_at = now, retry_count = 0,
                                 max_retries = rq_max_retries rq,
                                 retry_on_failure = rq_retry_on_failure rq,
                                 timeout_seconds = rq_timeout_seconds rq,
                                 depends_on = deps_of rq, metadata = rq_metadata rq\<rparr>;
                          s1 = s\<lparr>automation_jobs := (automation_jobs s)(new_id \<mapsto> row)\<rparr>;
                          s2 = (if initial_status = QUEUED
                                then s1\<lparr>redis := lpush (job_queue (rq_priority rq)) new_id (redis s1)\<rparr>
                                else s1);
                          s3 = broadcast_job_update ts new_id (rq_client_id rq) initial_status
                                 (Some 0) None s2
                      in (Inr (JobResponse row (Some client_name)), s3)))))"

text \<open>
  \<^verbatim>\<open>update_job\<close> collects the assignments of its \<^verbatim>\<open>SET\<close> clause in a list; with an empty
  list it returns the row it read and does nothing else. No assignment is conditional on the
  row's current status.
\<close>

datatype assignment =
    SetStatus JobStatus
  | SetStartedAtNow
  | SetCompletedAtNow
  | SetPriority JobPriority
  | SetConfig json
  | SetScheduledAt datetime
  | SetMetadata json

definition build_updates :: "UpdateJobRequest \<Rightarrow> assignment list" where
  "build_updates rq =
     (case up_status rq of
        None \<Rightarrow> []
      | Some st \<Rightarrow>
          SetStatus st #
            (if st = RUNNING then [SetStartedAtNow]
             else if st \<in> {COMPLETED, FAILED, CANCELLED} then [SetCompletedAtNow]
             else []))
     @ (case up_priority rq of None \<Rightarrow> [] | Some p \<Rightarrow> [SetPriority p])
     @ (case up_config rq of None \<Rightarrow> [] | Some c \<Rightarrow> [SetConfig c])
     @ (case up_scheduled_at rq of None \<Rightarrow> [] | Some t \<Rightarrow> [SetScheduledAt t])
     @ (case up_metadata rq of None \<Rightarrow> [] | Some m \<Rightarrow> [SetMetadata m])"

fun apply_assignment :: "datetime \<Rightarrow> assignment \<Rightarrow> job_row \<Rightarrow> job_row" where
  "apply_assignment now (SetStatus st) r = r\<lparr>status := st\<rparr>"
| "apply_assignment now SetStartedAtNow r = r\<lparr>started_at := Some now\<rparr>"
| "apply_assignment now SetCompletedAtNow r = r\<lparr>completed_at := Some now\<rparr>"
| "apply_assignment now (SetPriority p) r = r\<lparr>priority := p\<rparr>"
| "apply_assignment now (SetConfig c) r = r\<lparr>config := c\<rparr>"
| "apply_assignment now (SetScheduledAt t) r = r\<lparr>scheduled_at := Some t\<rparr>"
| "apply_assignment now (SetMetadata m) r = r\<lparr>metadata := m\<rparr>"

definition update_job ::
  "datetime \<Rightarrow> datetime \<Rightarrow> uuid \<Rightarrow> UpdateJobRequest \<Rightarrow> system \<Rightarrow> (failure + response) \<times> system" where
  "update_job now ts jid rq s =
     (case automation_jobs s jid of
        None \<Rightarrow> (Inl (HTTPException 404 ''Job not found''), s)
      | Some existing \<Rightarrow>
          (let updates = build_updates rq
           in if updates = [] then (Inr (JobResponse existing None), s)
              else
                (let row = (fold (apply_assignment now) updates existing)\<lparr>updated_at := now\<rparr>;
                     s1 = s\<lparr>automation_jobs := (automation_jobs s)(jid \<mapsto> row)\<rparr>;
                     s2 = broadcast_job_update ts jid (client_id row) (status row)
                            (Some (progress row)) None s1
                 in (Inr (JobResponse row (clients s (client_id row))), s2))))"

text \<open>
  \<^verbatim>\<open>get_job\<close> receives the path segment as text; the framework converts it to
  \<^verbatim>\<open>uuid.UUID\<close> before the body runs and raises its request validation error (answered
  with status 422) when that fails. The conversion belongs to the framework; it is written here
  as the test for the canonical form, 32 hexadecimal digits once the hyphens are dropped. The
  braced and \<^verbatim>\<open>urn:uuid:\<close> spellings, which need 32 hexadecimal digits as well, are not
  accepted by this test.
\<close>

definition is_hex_digit :: "char \<Rightarrow> bool" where
  "is_hex_digit c = (c \<in> set ''0123456789abcdefABCDEF'')"

definition valid_uuid :: "string \<Rightarrow> bool" where
  "valid_uuid raw =
     (let hex = filter (\<lambda>c. c \<noteq> CHR ''-'') raw
      in length hex = 32 \<and> list_all is_hex_digit hex)"

definition get_job :: "string \<Rightarrow> system \<Rightarrow> failure + response" where
  "get_job raw s =
     (if \<not> valid_uuid raw then Inl RequestValidationError
      else case automation_jobs s raw of
             None \<Rightarrow> Inl (HTTPException 404 ''Job not found'')
           | Some r \<Rightarrow> Inr (JobResponse r (clients s (client_id r))))"

section \<open>The route table\<close>

text \<open>
  The decorators of \<^verbatim>\<open>automation.py\<close> register the routes in the order of the file, under the
  router's prefix \<^verbatim>\<open>/automation\<close>. A request is given to the first route whose path pattern
  and method both match; a \<^verbatim>\<open>{name}\<close> segment matches any non-empty text without a slash.
  When only path patterns match, the answer is status 405; when none does, 404.
\<close>

datatype http_method = GET | POST | PATCH | WEBSOCKET

datatype segment = Lit string | Param string

datatype endpoint =
    Ep_list_jobs | Ep_get_job | Ep_create_job | Ep_update_job | Ep_cancel_job
  | Ep_retry_job | Ep_get_job_stats | Ep_list_browser_sessions | Ep_terminate_session
  | Ep_websocket_endpoint

datatype dispatched =
    Handled endpoint "(string \<times> string) list"
  | MethodNotAllowed
  | NoRoute

fun match_path :: "segment list \<Rightarrow> string list \<Rightarrow> (string \<times> string) list option" where
  "match_path [] [] = Some []"
| "match_path (Lit l # ps) (x # xs) = (if x = l then match_path ps xs else None)"
| "match_path (Param n # ps) (x # xs) =
     (if x = [] then None else map_option (\<lambda>b. (n, x) # b) (match_path ps xs))"
| "match_path _ _ = None"

fun first_full ::
  "(http_method \<times> segment list \<times> endpoint) list \<Rightarrow> http_method \<Rightarrow> string list
     \<Rightarrow> (endpoint \<times> (string \<times> string) list) option" where
  "first_full [] m p = None"
| "first_full ((rm, pat, ep) # rs) m p =
     (case match_path pat p of
        Some b \<Rightarrow> if rm = m then Some (ep, b) else first_full rs m p
      | None \<Rightarrow> first_full rs m p)"

definition dispatch ::
  "(http_method \<times> segment list \<times> endpoint) list \<Rightarrow> http_method \<Rightarrow> string list \<Rightarrow> dispatched" where
  "dispatch rs m p =
     (case first_full rs m p of
        Some (ep, b) \<Rightarrow> Handled ep b
      | None \<Rightarrow>
          if list_ex (\<lambda>(rm, pat, ep). match_path pat p \<noteq> None) rs then MethodNotAllowed
          else NoRoute)"

definition router :: "(http_method \<times> segment list \<times> endpoint) list" where
  "router =
     [(GET, [Lit ''automation'', Lit ''jobs''], Ep_list_jobs),
      (GET, [Lit ''automation'', Lit ''jobs'', Param ''job_id''], Ep_get_job),
      (POST, [Lit ''automation'', Lit ''jobs''], Ep_create_job),
      (PATCH, [Lit ''automation'', Lit ''jobs'', Param ''job_id''], Ep_update_job),
      (POST, [Lit ''automation'', Lit ''jobs'', Param ''job_id'', Lit ''cancel''], Ep_cancel_job),
      (POST, [Lit ''automation'', Lit ''jobs'', Param ''job_id'', Lit ''retry''], Ep_retry_job),
      (GET, [Lit ''automation'', Lit ''jobs'', Lit ''stats''], Ep_get_job_stats),
      (GET, [Lit ''automation'', Lit ''sessions''], Ep_list_browser_sessions),
      (POST, [Lit ''automation'', Lit ''sessions'', Param ''client_id'', Lit ''terminate''],
         Ep_terminate_session),
      (WEBSOCKET, [Lit ''automation'', Lit ''ws'', Param ''client_id''], Ep_websocket_endpoint)]"

section \<open>The scheduling advisor\<close>

text \<open>
  \<^verbatim>\<open>get_schedule_recommendations\<close> of \<^verbatim>\<open>intelligence.py\<close>, for one client and one job type.
  \<open>rows\<close> are the rows of \<^verbatim>\<open>automation_jobs\<close>. The conflict score (a float quotient) and the
  final sort are not part of this model.
\<close>

definition hours :: "int \<Rightarrow> datetime" where
  "hours h = h * 3600000000"

definition minutes :: "int \<Rightarrow> datetime" where
  "minutes m = m * 60000000"

fun job_type_value :: "JobType \<Rightarrow> string" where
  "job_type_value MENU_BUILD = ''menu_build''"
| "job_type_value MENU_SYNC = ''menu_sync''"
| "job_type_value ITEM_CREATE = ''item_create''"
| "job_type_value ITEM_UPDATE = ''item_update''"
| "job_type_value MODIFIER_SYNC = ''modifier_sync''"
| "job_type_value HEALTH_CHECK = ''health_check''"
| "job_type_value GOLDEN_COPY = ''golden_copy''"
| "job_type_value CLASSIFICATION = ''classification''"
| "job_type_value REPORT_GENERATION = ''report_generation''"
| "job_type_value BACKUP = ''backup''"

definition date_trunc_hour :: "datetime \<Rightarrow> datetime" where
  "date_trunc_hour t = t - t mod 3600000000"

text \<open>\<^verbatim>\<open>replace(minute=0, second=0)\<close> clears two fields and keeps the microseconds.\<close>

definition replace_minute_second :: "datetime \<Rightarrow> datetime" where
  "replace_minute_second t = t - t mod 3600000000 + t mod 1000000"

text \<open>
  \<^verbatim>\<open>SELECT date_trunc('hour', scheduled_at), COUNT(*) ... WHERE scheduled_at BETWEEN $1 AND $2
  GROUP BY ... HAVING COUNT(*) > 3\<close>, collected in a set.
\<close>

definition busy_hours :: "datetime \<Rightarrow> datetime \<Rightarrow> job_row list \<Rightarrow> datetime list" where
  "busy_hours now end_time rows =
     (let hs = [date_trunc_hour t.
                  r \<leftarrow> rows, t \<leftarrow> (case scheduled_at r of None \<Rightarrow> [] | Some t \<Rightarrow> [t]),
                  now \<le> t \<and> t \<le> end_time]
      in remdups (filter (\<lambda>h. 3 < count_list hs h) hs))"

text \<open>
  \<^verbatim>\<open>SELECT job_type, MAX(completed_at) ... WHERE client_id = $1 AND status = 'completed'
  GROUP BY job_type\<close>, then \<^verbatim>\<open>last_job_times.get(jt)\<close>: \<open>None\<close> when the type has no completed
  row, and when every such row has a \<^verbatim>\<open>NULL\<close> completion time.
\<close>

definition last_job_times :: "uuid \<Rightarrow> job_row list \<Rightarrow> string \<Rightarrow> datetime option" where
  "last_job_times c rows jt =
     (case [t. r \<leftarrow> rows,
               client_id r = c \<and> status r = COMPLETED \<and> job_type_value (job_type r) = jt,
               t \<leftarrow> (case completed_at r of None \<Rightarrow> [] | Some t \<Rightarrow> [t])] of
        [] \<Rightarrow> None
      | t # ts \<Rightarrow> Some (fold max ts t))"

definition intervals :: "string \<rightharpoonup> datetime" where
  "intervals =
     map_of [(''health_check'', hours 6), (''menu_sync'', hours 24),
             (''golden_copy'', hours 24), (''backup'', hours 12)]"

definition interval_for :: "string \<Rightarrow> datetime" where
  "interval_for jt = (case intervals jt of None \<Rightarrow> hours 24 | Some i \<Rightarrow> i)"

definition candidate_next_run :: "datetime \<Rightarrow> datetime option \<Rightarrow> string \<Rightarrow> datetime" where
  "candidate_next_run now last_run jt =
     (case last_run of
        Some lr \<Rightarrow>
          (let next_run = lr + interval_for jt
           in if next_run < now then now + minutes 30 else next_run)
      | None \<Rightarrow> now + hours 1)"

text \<open>The \<^verbatim>\<open>while\<close> loop that moves the candidate past busy hours.\<close>

function avoid_busy :: "datetime list \<Rightarrow> datetime \<Rightarrow> datetime" where
  "avoid_busy busy next_run =
     (if replace_minute_second next_run \<in> set busy then avoid_busy busy (next_run + hours 1)
      else next_run)"
  by pat_completeness auto

text \<open>
  Termination of the loop: each round leaves one busy entry behind, the one that equals the
  truncated candidate, and the truncated candidate only grows.
\<close>

lemma replace_minute_second_step:
  "replace_minute_second (t + hours 1) = replace_minute_second t + hours 1"
proof -
  have a: "(t + 3600000000) mod 3600000000 = t mod (3600000000::int)"
    by (rule mod_add_self2)
  have "(t + 1000000 * 3600) mod 1000000 = t mod (1000000::int)"
    by (rule mod_mult_self2)
  then have b: "(t + 3600000000) mod 1000000 = t mod (1000000::int)"
    by simp
  show ?thesis
    unfolding replace_minute_second_def hours_def
    using a b by simp
qed

lemma length_filter_stronger:
  assumes "x \<in> set xs" "P x" "\<not> Q x" "\<And>y. Q y \<Longrightarrow> P y"
  shows "length (filter Q xs) < length (filter P xs)"
proof -
  have "filter Q xs = filter Q (filter P xs)"
    using assms(4) by (induction xs) auto
  moreover have "x \<in> set (filter P xs)"
    using assms by simp
  ultimately show ?thesis
    using length_filter_less [of x "filter P xs" Q] assms(3) by simp
qed

termination avoid_busy
proof (relation "measure (\<lambda>(busy, t). length (filter (\<lambda>b. replace_minute_second t \<le> b) busy))")
  show "wf (measure (\<lambda>(busy, t). length (filter (\<lambda>b. replace_minute_second t \<le> b) busy)))"
    by (rule wf_measure)
next
  fix busy :: "datetime list" and next_run :: datetime
  assume "replace_minute_second next_run \<in> set busy"
  then have "length (filter (\<lambda>b. replace_minute_second next_run + hours 1 \<le> b) busy)
           < length (filter (\<lambda>b. replace_minute_second next_run \<le> b) busy)"
    by (rule length_filter_stronger) (simp_all add: hours_def)
  then show "((busy, next_run + hours 1), (busy, next_run))
        \<in> measure (\<lambda>(busy, t). length (filter (\<lambda>b. replace_minute_second t \<le> b) busy))"
    by (simp add: replace_minute_second_step)
qed

definition job_types_to_schedule :: "string option \<Rightarrow> string list" where
  "job_types_to_schedule job_type_param =
     (case job_type_param of
        None \<Rightarrow> [''health_check'', ''menu_sync'', ''golden_copy'']
      | Some jt \<Rightarrow> if jt = [] then [''health_check'', ''menu_sync'', ''golden_copy''] else [jt])"

definition recommended_time :: "datetime \<Rightarrow> int \<Rightarrow> uuid \<Rightarrow> string \<Rightarrow> job_row list \<Rightarrow> datetime" where
  "recommended_time now hours_ahead c jt rows =
     avoid_busy (busy_hours now (now + hours hours_ahead) rows)
       (candidate_next_run now (last_job_times c rows jt) jt)"

section \<open>A small concrete system\<close>

text \<open>
  One client with three jobs, used to run the handlers on explicit inputs: job \<open>a\<close> completed,
  job \<open>b\<close> failed with its retry budget used up, job \<open>c\<close> still pending. The client has one
  subscriber, and there is one global subscriber.
\<close>

definition row_a :: job_row where
  "row_a = \<lparr>row_id = ''a'', client_id = ''x'', job_type = HEALTH_CHECK, status = COMPLETED,
            priority = NORMAL, config = ''{}'', result = Some ''{}'', error = None,
            progress = 100, progress_message = None, scheduled_at = Some 0,
            started_at = Some 0, completed_at = Some 0, created_at = 0, updated_at = 0,
            retry_count = 0, max_retries = 3, retry_on_failure = True,
            timeout_seconds = 3600, depends_on = [], metadata = ''{}''\<rparr>"

definition row_b :: job_row where
  "row_b = row_a\<lparr>row_id := ''b'', job_type := MENU_SYNC, status := FAILED, result := None,
                 error := Some ''boom'', progress := 40, retry_count := 3\<rparr>"

definition row_c :: job_row where
  "row_c = row_a\<lparr>row_id := ''c'', job_type := BACKUP, status := PENDING, result := None,
                 progress := 0, started_at := None, completed_at := None\<rparr>"

definition demo :: system where
  "demo = \<lparr>automation_jobs = [''a'' \<mapsto> row_a, ''b'' \<mapsto> row_b, ''c'' \<mapsto> row_c],
           clients = [''x'' \<mapsto> ''Client X''],
           redis = Map.empty,
           active_connections = [''x'' \<mapsto> [1], ''global'' \<mapsto> [2]],
           sent_log = []\<rparr>"

definition demo_request :: CreateJobRequest where
  "demo_request = \<lparr>rq_client_id = ''x'', rq_job_type = MENU_SYNC, rq_priority = NORMAL,
                    rq_config = ''{}'', rq_scheduled_at = None, rq_depends_on = None,
                    rq_retry_on_failure = True, rq_max_retries = 3,
                    rq_timeout_seconds = 3600, rq_metadata = ''{}''\<rparr>"

definition no_update :: UpdateJobRequest where
  "no_update = \<lparr>up_status = None, up_priority = None, up_config = None,
                 up_scheduled_at = None, up_metadata = None\<rparr>"

text \<open>
  The job table for the advisor: the completed health check \<open>a\<close> and four jobs scheduled
  within the hour that starts six hours after time 0.
\<close>

definition demo_rows :: "job_row list" where
  "demo_rows = [row_a, row_c\<lparr>scheduled_at := Some (hours 6)\<rparr>,
                row_c\<lparr>scheduled_at := Some (hours 6 + minutes 10)\<rparr>,
                row_c\<lparr>scheduled_at := Some (hours 6 + minutes 20)\<rparr>,
                row_c\<lparr>scheduled_at := Some (hours 6 + minutes 59)\<rparr>]"

lemmas demo_defs = demo_def row_a_def row_b_def row_c_def demo_request_def no_update_def

section \<open>Notions used to state the properties\<close>

text \<open>
  The lifecycle edge set as the specification lists it (section 4.1). It is not part of the
  code: no handler consults such a table. It only names the edges in the statements below.
\<close>

fun spec_edge :: "JobStatus \<Rightarrow> JobStatus \<Rightarrow> bool" where
  "spec_edge PENDING st = (st = QUEUED \<or> st = CANCELLED)"
| "spec_edge QUEUED st = (st = RUNNING \<or> st = CANCELLED)"
| "spec_edge RUNNING st = (st = COMPLETED \<or> st = FAILED \<or> st = PAUSED \<or> st = CANCELLED)"
| "spec_edge PAUSED st = (st = CANCELLED)"
| "spec_edge COMPLETED st = False"
| "spec_edge FAILED st = (st = QUEUED)"
| "spec_edge CANCELLED st = (st = QUEUED)"

text \<open>How many times \<^verbatim>\<open>send_json\<close> was called on a connection between two states.\<close>

definition deliveries :: "system \<Rightarrow> system \<Rightarrow> websocket \<Rightarrow> nat" where
  "deliveries s s' w =
     count_list (concat (map snd (drop (length (sent_log s)) (sent_log s')))) w"

text \<open>
  \<open>notified s s' msg cid\<close>: from \<open>s\<close> to \<open>s'\<close> exactly one entry was added to the log, the
  message \<open>msg\<close> sent to the connections of \<open>cid\<close> followed by the global ones as \<open>s\<close> has
  them; when no connection occurs twice among these, each of them got exactly one send; and the
  registry is the same when \<open>s\<close> has no list for \<open>cid\<close> or no global connection.
\<close>

definition notified :: "system \<Rightarrow> system \<Rightarrow> message \<Rightarrow> string \<Rightarrow> bool" where
  "notified s s' msg cid =
     (sent_log s' = sent_log s @ [(msg, connections_of s cid @ connections_of s ''global'')]
      \<and> (distinct (connections_of s cid @ connections_of s ''global'') \<longrightarrow>
           (\<forall>w \<in> set (connections_of s cid) \<union> set (connections_of s ''global'').
              deliveries s s' w = 1))
      \<and> ((active_connections s cid = None \<or> connections_of s ''global'' = [])
           \<longrightarrow> active_connections s' = active_connections s))"

section \<open>Properties of the handlers\<close>

subsection \<open>What an update writes\<close>

lemma fold_updates_fields:
  "client_id (fold (apply_assignment now) (build_updates rq) r) = client_id r"
  "progress (fold (apply_assignment now) (build_updates rq) r) = progress r"
  "status (fold (apply_assignment now) (build_updates rq) r) =
     (case up_status rq of None \<Rightarrow> status r | Some st \<Rightarrow> st)"
  by (simp_all add: build_updates_def split: option.splits)

lemma fold_updates_timestamps:
  assumes "up_status rq = Some st"
  shows "st = RUNNING \<Longrightarrow> started_at (fold (apply_assignment now) (build_updates rq) r) = Some now"
    and "st \<in> {COMPLETED, FAILED, CANCELLED} \<Longrightarrow>
           completed_at (fold (apply_assignment now) (build_updates rq) r) = Some now"
  using assms by (auto simp add: build_updates_def split: option.splits)

lemma distinct_count_list_one:
  "distinct xs \<Longrightarrow> x \<in> set xs \<Longrightarrow> count_list xs x = 1"
  by (induction xs) auto

lemma broadcast_job_update_log:
  assumes "sent_log s1 = sent_log s" and "active_connections s1 = active_connections s"
  shows "sent_log (broadcast_job_update ts jid cid st prog pmsg s1)
           = sent_log s @ [(job_update_message ts jid st prog pmsg,
                            connections_of s cid @ connections_of s ''global'')]"
  using assms
  by (simp add: broadcast_job_update_def broadcast_to_client_def connections_of_def Let_def
        split: option.splits)

lemma broadcast_job_update_registry:
  assumes "active_connections s1 = active_connections s"
      and "active_connections s cid = None \<or> connections_of s ''global'' = []"
  shows "active_connections (broadcast_job_update ts jid cid st prog pmsg s1)
           = active_connections s"
  using assms
  by (auto simp: broadcast_job_update_def broadcast_to_client_def connections_of_def Let_def
           split: option.splits)

lemma broadcast_job_update_notified:
  assumes "sent_log s1 = sent_log s" and "active_connections s1 = active_connections s"
  shows "notified s (broadcast_job_update ts jid cid st prog pmsg s1)
           (job_update_message ts jid st prog pmsg) cid"
proof -
  let ?s' = "broadcast_job_update ts jid cid st prog pmsg s1"
  let ?targets = "connections_of s cid @ connections_of s ''global''"
  have log: "sent_log ?s' = sent_log s @ [(job_update_message ts jid st prog pmsg, ?targets)]"
    using assms by (rule broadcast_job_update_log)
  have once: "deliveries s ?s' w = 1" if "distinct ?targets" and "w \<in> set ?targets" for w
    using that by (simp add: deliveries_def log distinct_count_list_one del: count_list_append)
  have reg: "active_connections s cid = None \<or> connections_of s ''global'' = []
               \<Longrightarrow> active_connections ?s' = active_connections s"
    using assms(2) by (rule broadcast_job_update_registry)
  show ?thesis
    unfolding notified_def using log once reg by auto
qed

subsection \<open>Status changes through update\<close>

text \<open>
  C1 (as the code has it). \<^verbatim>\<open>update_job\<close> does not look at the current status: for an
  existing job and a request carrying a status, the requested status is written whatever the
  edge is, with \<^verbatim>\<open>started_at\<close> set on RUNNING and \<^verbatim>\<open>completed_at\<close> set on COMPLETED, FAILED
  and CANCELLED. No transition is refused; the only failure is status 404 for a job that does
  not exist, which leaves the state as it was.
\<close>

theorem update_job_any_status:
  "(automation_jobs s jid = Some r \<and> up_status rq = Some st \<longrightarrow>
      (\<exists>row name. update_job now ts jid rq s
                     = (Inr (JobResponse row name), snd (update_job now ts jid rq s))
         \<and> automation_jobs (snd (update_job now ts jid rq s)) jid = Some row
         \<and> status row = st
         \<and> (st = RUNNING \<longrightarrow> started_at row = Some now)
         \<and> (st \<in> {COMPLETED, FAILED, CANCELLED} \<longrightarrow> completed_at row = Some now)))
   \<and> (automation_jobs s jid = None \<longrightarrow>
        update_job now ts jid rq s = (Inl (HTTPException 404 ''Job not found''), s))"
proof (intro conjI impI)
  assume a: "automation_jobs s jid = Some r \<and> up_status rq = Some st"
  then have ne: "build_updates rq \<noteq> []"
    by (simp add: build_updates_def)
  let ?row = "(fold (apply_assignment now) (build_updates rq) r)\<lparr>updated_at := now\<rparr>"
  have "update_job now ts jid rq s
          = (Inr (JobResponse ?row (clients s (client_id ?row))), snd (update_job now ts jid rq s))"
    using a ne by (simp add: update_job_def Let_def)
  moreover have "automation_jobs (snd (update_job now ts jid rq s)) jid = Some ?row"
    using a ne
    by (simp add: update_job_def Let_def broadcast_job_update_def broadcast_to_client_def
          split: option.splits)
  moreover have "status ?row = st"
    using a by (simp add: fold_updates_fields)
  moreover have "st = RUNNING \<longrightarrow> started_at ?row = Some now"
    using a fold_updates_timestamps(1) [of rq st now r] by simp
  moreover have "st \<in> {COMPLETED, FAILED, CANCELLED} \<longrightarrow> completed_at ?row = Some now"
    using a fold_updates_timestamps(2) [of rq st now r] by simp
  ultimately show "\<exists>row name. update_job now ts jid rq s
                     = (Inr (JobResponse row name), snd (update_job now ts jid rq s))
         \<and> automation_jobs (snd (update_job now ts jid rq s)) jid = Some row
         \<and> status row = st
         \<and> (st = RUNNING \<longrightarrow> started_at row = Some now)
         \<and> (st \<in> {COMPLETED, FAILED, CANCELLED} \<longrightarrow> completed_at row = Some now)"
    by blast
next
  assume "automation_jobs s jid = None"
  then show "update_job now ts jid rq s = (Inl (HTTPException 404 ''Job not found''), s)"
    by (simp add: update_job_def)
qed

text \<open>The theorem at the completed job \<open>a\<close>, asked to become RUNNING, and at an unknown id.\<close>

theorem update_job_any_status_witness:
  "automation_jobs demo ''a'' = Some row_a
   \<and> up_status (no_update\<lparr>up_status := Some RUNNING\<rparr>) = Some RUNNING
   \<and> automation_jobs demo ''zz'' = None
   \<and> (\<exists>row. automation_jobs
               (snd (update_job 7 8 ''a'' (no_update\<lparr>up_status := Some RUNNING\<rparr>) demo)) ''a''
             = Some row
          \<and> status row = RUNNING \<and> started_at row = Some 7)
   \<and> update_job 7 8 ''zz'' no_update demo = (Inl (HTTPException 404 ''Job not found''), demo)"
proof -
  have h1: "automation_jobs demo ''a'' = Some row_a
            \<and> up_status (no_update\<lparr>up_status := Some RUNNING\<rparr>) = Some RUNNING"
    by (simp add: demo_defs)
  have h2: "automation_jobs demo ''zz'' = None"
    by (simp add: demo_defs)
  show ?thesis
    using h1 h2
      update_job_any_status [of demo "''a''" row_a "no_update\<lparr>up_status := Some RUNNING\<rparr>"
        RUNNING 7 8]
      update_job_any_status [of demo "''zz''" row_a no_update RUNNING 7 8]
    by blast
qed

text \<open>
  C1 as stated fails: the edge from COMPLETED to PENDING is not in the edge set, and an update
  asking for it on the completed job \<open>a\<close> succeeds and writes PENDING.
\<close>

theorem update_job_counterexample:
  "automation_jobs demo ''a'' = Some row_a \<and> status row_a = COMPLETED
   \<and> \<not> spec_edge COMPLETED PENDING
   \<and> \<not> isl (fst (update_job 7 8 ''a'' (no_update\<lparr>up_status := Some PENDING\<rparr>) demo))
   \<and> map_option status
        (automation_jobs (snd (update_job 7 8 ''a'' (no_update\<lparr>up_status := Some PENDING\<rparr>) demo)) ''a'')
       = Some PENDING"
  by (simp add: demo_defs update_job_def build_updates_def Let_def broadcast_job_update_def
        broadcast_to_client_def)

subsection \<open>Retry\<close>

text \<open>
  C2 (as the code has it). \<^verbatim>\<open>retry_job\<close> never reads \<^verbatim>\<open>max_retries\<close>: for an existing job
  it succeeds exactly when the status is FAILED or CANCELLED, and then the stored
  \<^verbatim>\<open>retry_count\<close> is the old one plus 1, whatever the budget; from any other status it fails
  with status 400 and changes nothing.
\<close>

theorem retry_job_ignores_budget:
  assumes "automation_jobs s jid = Some r"
  shows "(\<not> isl (fst (retry_job now ts jid s)) \<longleftrightarrow> status r \<in> {FAILED, CANCELLED})
       \<and> (status r \<in> {FAILED, CANCELLED} \<longrightarrow>
            map_option retry_count (automation_jobs (snd (retry_job now ts jid s)) jid)
              = Some (retry_count r + 1))
       \<and> (status r \<notin> {FAILED, CANCELLED} \<longrightarrow>
            retry_job now ts jid s =
              (Inl (HTTPException 400 ''Job cannot be retried or not found''), s))"
  using assms
  by (auto simp: retry_job_def Let_def lpush_def broadcast_job_update_def broadcast_to_client_def
           split: option.splits)

theorem retry_job_ignores_budget_witness:
  "automation_jobs demo ''b'' = Some row_b \<and> status row_b \<in> {FAILED, CANCELLED}
   \<and> \<not> isl (fst (retry_job 7 8 ''b'' demo))
   \<and> map_option retry_count (automation_jobs (snd (retry_job 7 8 ''b'' demo)) ''b'')
       = Some (retry_count row_b + 1)
   \<and> automation_jobs demo ''a'' = Some row_a \<and> status row_a \<notin> {FAILED, CANCELLED}
   \<and> retry_job 7 8 ''a'' demo
       = (Inl (HTTPException 400 ''Job cannot be retried or not found''), demo)"
proof -
  have b: "automation_jobs demo ''b'' = Some row_b" by (simp add: demo_defs)
  have a: "automation_jobs demo ''a'' = Some row_a" by (simp add: demo_defs)
  have sb: "status row_b \<in> {FAILED, CANCELLED}" by (simp add: demo_defs)
  have sa: "status row_a \<notin> {FAILED, CANCELLED}" by (simp add: demo_defs)
  show ?thesis
    using a b sa sb retry_job_ignores_budget [OF b, of 7 8] retry_job_ignores_budget [OF a, of 7 8]
    by blast
qed

text \<open>
  C2 as stated fails: job \<open>b\<close> is FAILED with \<^verbatim>\<open>retry_count = max_retries = 3\<close>; its retry
  succeeds and leaves \<^verbatim>\<open>retry_count = 4\<close> above \<^verbatim>\<open>max_retries = 3\<close>.
\<close>

theorem retry_budget_counterexample:
  "automation_jobs demo ''b'' = Some row_b \<and> status row_b = FAILED
   \<and> retry_count row_b = max_retries row_b
   \<and> fst (retry_job 7 8 ''b'' demo) = Inr (RetryResponse ''requeued'' ''b'' 4)
   \<and> map_option retry_count (automation_jobs (snd (retry_job 7 8 ''b'' demo)) ''b'') = Some 4
   \<and> map_option max_retries (automation_jobs (snd (retry_job 7 8 ''b'' demo)) ''b'') = Some 3"
  by (simp add: demo_defs retry_job_def Let_def lpush_def broadcast_job_update_def
        broadcast_to_client_def)

text \<open>
  C6. For a job whose status is FAILED or CANCELLED, \<^verbatim>\<open>retry_job\<close> succeeds; the stored row
  is the old one with \<^verbatim>\<open>retry_count\<close> one higher, \<^verbatim>\<open>error\<close>, \<^verbatim>\<open>result\<close>, \<^verbatim>\<open>started_at\<close> and
  \<^verbatim>\<open>completed_at\<close> null, status QUEUED and a new \<^verbatim>\<open>updated_at\<close>, every other field and every
  other row as before; the job id is pushed on the Redis list of the row's priority; the
  clients are untouched.
\<close>

theorem retry_job_effect:
  assumes "automation_jobs s jid = Some r" and "status r \<in> {FAILED, CANCELLED}"
  shows "fst (retry_job now ts jid s) = Inr (RetryResponse ''requeued'' jid (retry_count r + 1))
       \<and> automation_jobs (snd (retry_job now ts jid s)) =
           (automation_jobs s)(jid \<mapsto>
              r\<lparr>status := QUEUED, started_at := None, completed_at := None, error := None,
                result := None, retry_count := retry_count r + 1, updated_at := now\<rparr>)
       \<and> redis (snd (retry_job now ts jid s)) =
           (redis s)(job_queue (priority r) \<mapsto>
              jid # (case redis s (job_queue (priority r)) of None \<Rightarrow> [] | Some vs \<Rightarrow> vs))
       \<and> clients (snd (retry_job now ts jid s)) = clients s"
  using assms
  by (auto simp: retry_job_def Let_def lpush_def broadcast_job_update_def broadcast_to_client_def
           split: option.splits)

theorem retry_job_effect_witness:
  "automation_jobs demo ''b'' = Some row_b \<and> status row_b \<in> {FAILED, CANCELLED}
   \<and> fst (retry_job 7 8 ''b'' demo) = Inr (RetryResponse ''requeued'' ''b'' 4)
   \<and> redis (snd (retry_job 7 8 ''b'' demo)) ''job_queue:1'' = Some [''b'']"
proof -
  have b: "automation_jobs demo ''b'' = Some row_b" by (simp add: demo_defs)
  have sb: "status row_b \<in> {FAILED, CANCELLED}" by (simp add: demo_defs)
  have v: "retry_count row_b = 3 \<and> job_queue (priority row_b) = ''job_queue:1''
           \<and> redis demo = Map.empty"
    by (simp add: demo_defs job_queue_def)
  show ?thesis
    using b sb v retry_job_effect [OF b sb, of 7 8] by simp
qed

subsection \<open>Cancel\<close>

text \<open>
  C5. For an existing job, \<^verbatim>\<open>cancel_job\<close> succeeds exactly when the status is PENDING, QUEUED,
  RUNNING or PAUSED, and then stores status CANCELLED (with \<^verbatim>\<open>completed_at\<close> and
  \<^verbatim>\<open>updated_at\<close>). On COMPLETED, FAILED or CANCELLED it fails with the handler's status-400
  error and returns the state it was given: no row changes and nothing is broadcast.
\<close>

theorem cancel_job_eligibility:
  assumes "automation_jobs s jid = Some r"
  shows "(status r \<in> {PENDING, QUEUED, RUNNING, PAUSED} \<longrightarrow>
            fst (cancel_job now ts jid s) = Inr (CancelResponse ''cancelled'' jid)
          \<and> automation_jobs (snd (cancel_job now ts jid s)) =
              (automation_jobs s)(jid \<mapsto>
                 r\<lparr>status := CANCELLED, completed_at := Some now, updated_at := now\<rparr>))
       \<and> (status r \<in> {COMPLETED, FAILED, CANCELLED} \<longrightarrow>
            cancel_job now ts jid s =
              (Inl (HTTPException 400 ''Job cannot be cancelled or not found''), s))
       \<and> (isl (fst (cancel_job now ts jid s)) \<longleftrightarrow>
            status r \<notin> {PENDING, QUEUED, RUNNING, PAUSED})"
  using assms
  by (auto simp: cancel_job_def Let_def broadcast_job_update_def broadcast_to_client_def
           split: option.splits)

theorem cancel_job_eligibility_witness:
  "automation_jobs demo ''c'' = Some row_c \<and> status row_c \<in> {PENDING, QUEUED, RUNNING, PAUSED}
   \<and> fst (cancel_job 7 8 ''c'' demo) = Inr (CancelResponse ''cancelled'' ''c'')
   \<and> automation_jobs demo ''a'' = Some row_a \<and> status row_a \<in> {COMPLETED, FAILED, CANCELLED}
   \<and> cancel_job 7 8 ''a'' demo
       = (Inl (HTTPException 400 ''Job cannot be cancelled or not found''), demo)"
proof -
  have c: "automation_jobs demo ''c'' = Some row_c" by (simp add: demo_defs)
  have a: "automation_jobs demo ''a'' = Some row_a" by (simp add: demo_defs)
  have sc: "status row_c \<in> {PENDING, QUEUED, RUNNING, PAUSED}" by (simp add: demo_defs)
  have sa: "status row_a \<in> {COMPLETED, FAILED, CANCELLED}" by (simp add: demo_defs)
  show ?thesis
    using c a sc sa cancel_job_eligibility [OF c, of 7 8] cancel_job_eligibility [OF a, of 7 8]
    by blast
qed

text \<open>
  C10. For cancel and for retry alike, a request for an id with no row and a request for an
  existing job in an ineligible status get the same answer: one status-400 error with one
  message that names both causes.
\<close>

theorem cancel_retry_same_error:
  assumes "automation_jobs s1 jid = None" and "automation_jobs s2 jid = Some r"
  shows "(status r \<notin> {PENDING, QUEUED, RUNNING, PAUSED} \<longrightarrow>
            fst (cancel_job now ts jid s1) = fst (cancel_job now ts jid s2)
          \<and> fst (cancel_job now ts jid s2) =
              Inl (HTTPException 400 ''Job cannot be cancelled or not found''))
       \<and> (status r \<notin> {FAILED, CANCELLED} \<longrightarrow>
            fst (retry_job now ts jid s1) = fst (retry_job now ts jid s2)
          \<and> fst (retry_job now ts jid s2) =
              Inl (HTTPException 400 ''Job cannot be retried or not found''))"
  using assms by (simp add: cancel_job_def retry_job_def)

text \<open>
  The theorem with job \<open>a\<close> (COMPLETED, so ineligible for both) against the same system
  without that row.
\<close>

theorem cancel_retry_same_error_witness:
  "automation_jobs (demo\<lparr>automation_jobs := Map.empty\<rparr>) ''a'' = None
   \<and> automation_jobs demo ''a'' = Some row_a
   \<and> status row_a \<notin> {PENDING, QUEUED, RUNNING, PAUSED} \<and> status row_a \<notin> {FAILED, CANCELLED}
   \<and> fst (cancel_job 7 8 ''a'' (demo\<lparr>automation_jobs := Map.empty\<rparr>))
       = fst (cancel_job 7 8 ''a'' demo)
   \<and> fst (retry_job 7 8 ''a'' (demo\<lparr>automation_jobs := Map.empty\<rparr>))
       = fst (retry_job 7 8 ''a'' demo)"
proof -
  have n: "automation_jobs (demo\<lparr>automation_jobs := Map.empty\<rparr>) ''a'' = None" by simp
  have a: "automation_jobs demo ''a'' = Some row_a" by (simp add: demo_defs)
  have sa: "status row_a \<notin> {PENDING, QUEUED, RUNNING, PAUSED} \<and> status row_a \<notin> {FAILED, CANCELLED}"
    by (simp add: demo_defs)
  show ?thesis
    using n a sa cancel_retry_same_error [OF n a, of 7 8] by blast
qed

subsection \<open>Creation\<close>

lemma find_missing:
  assumes "d \<in> set ds" and "jobs d = None"
  shows "\<exists>d'. find (\<lambda>d. jobs d = None) ds = Some d' \<and> d' \<in> set ds \<and> jobs d' = None"
proof (cases "find (\<lambda>d. jobs d = None) ds")
  case None
  then show ?thesis using assms by (auto simp: find_None_iff)
next
  case (Some d')
  then show ?thesis by (auto simp: find_Some_iff)
qed

text \<open>
  C7. A creation request whose client id has no row is rejected with status 404 (\<^verbatim>\<open>Client not
  found\<close>); with a known client, a request listing a dependency id that has no row is rejected
  with the handler's not-found error for dependencies (status 400, \<^verbatim>\<open>Dependency job ... not
  found\<close>, naming a missing id). In both cases the state is returned as it was: no row is
  inserted, nothing is queued, nothing is broadcast.
\<close>

theorem create_job_rejects_unknown:
  "(clients s (rq_client_id rq) = None \<longrightarrow>
      create_job t285 t299 now ts new_id rq s = (Inl (HTTPException 404 ''Client not found''), s))
   \<and> (clients s (rq_client_id rq) \<noteq> None \<and> rq_depends_on rq = Some ds \<and> d \<in> set ds
        \<and> automation_jobs s d = None \<longrightarrow>
      (\<exists>d' \<in> set ds. automation_jobs s d' = None
         \<and> create_job t285 t299 now ts new_id rq s
             = (Inl (HTTPException 400 (''Dependency job '' @ d' @ '' not found'')), s)))"
proof (intro conjI impI)
  assume "clients s (rq_client_id rq) = None"
  then show "create_job t285 t299 now ts new_id rq s
               = (Inl (HTTPException 404 ''Client not found''), s)"
    by (simp add: create_job_def)
next
  assume a: "clients s (rq_client_id rq) \<noteq> None \<and> rq_depends_on rq = Some ds \<and> d \<in> set ds
        \<and> automation_jobs s d = None"
  then obtain name where name: "clients s (rq_client_id rq) = Some name" by blast
  from a have deps: "deps_of rq = ds" by (simp add: deps_of_def)
  from a find_missing [of d ds "automation_jobs s"] obtain d' where
    d': "find (\<lambda>d. automation_jobs s d = None) ds = Some d'" "d' \<in> set ds"
        "automation_jobs s d' = None"
    by blast
  have "create_job t285 t299 now ts new_id rq s
          = (Inl (HTTPException 400 (''Dependency job '' @ d' @ '' not found'')), s)"
    using name deps d'(1) by (simp add: create_job_def)
  then show "\<exists>d' \<in> set ds. automation_jobs s d' = None
         \<and> create_job t285 t299 now ts new_id rq s
             = (Inl (HTTPException 400 (''Dependency job '' @ d' @ '' not found'')), s)"
    using d'(2,3) by blast
qed

text \<open>The theorem at an unknown client, and at the dependency list \<open>a, q\<close> where \<open>q\<close> has no row.\<close>

theorem create_job_rejects_unknown_witness:
  "clients demo (rq_client_id (demo_request\<lparr>rq_client_id := ''nobody''\<rparr>)) = None
   \<and> create_job 1 2 3 4 ''n'' (demo_request\<lparr>rq_client_id := ''nobody''\<rparr>) demo
       = (Inl (HTTPException 404 ''Client not found''), demo)
   \<and> clients demo (rq_client_id (demo_request\<lparr>rq_depends_on := Some [''a'', ''q'']\<rparr>)) \<noteq> None
   \<and> automation_jobs demo ''q'' = None
   \<and> create_job 1 2 3 4 ''n'' (demo_request\<lparr>rq_depends_on := Some [''a'', ''q'']\<rparr>) demo
       = (Inl (HTTPException 400 ''Dependency job q not found''), demo)"
proof -
  have h1: "clients demo (rq_client_id (demo_request\<lparr>rq_client_id := ''nobody''\<rparr>)) = None"
    by (simp add: demo_defs)
  have h2: "clients demo (rq_client_id (demo_request\<lparr>rq_depends_on := Some [''a'', ''q'']\<rparr>)) \<noteq> None
            \<and> rq_depends_on (demo_request\<lparr>rq_depends_on := Some [''a'', ''q'']\<rparr>) = Some [''a'', ''q'']
            \<and> ''q'' \<in> set [''a'', ''q''] \<and> automation_jobs demo ''q'' = None"
    by (simp add: demo_defs)
  have a: "automation_jobs demo ''a'' \<noteq> None"
    by (simp add: demo_defs)
  from h2 create_job_rejects_unknown
         [of demo "demo_request\<lparr>rq_depends_on := Some [''a'', ''q'']\<rparr>" 1 2 3 4 "''n''"
             "[''a'', ''q'']" "''q''"]
  obtain d' where d': "d' \<in> set [''a'', ''q'']" "automation_jobs demo d' = None"
     "create_job 1 2 3 4 ''n'' (demo_request\<lparr>rq_depends_on := Some [''a'', ''q'']\<rparr>) demo
        = (Inl (HTTPException 400 (''Dependency job '' @ d' @ '' not found'')), demo)"
    by blast
  from d'(1,2) a have "d' = ''q''" by auto
  with d'(3) have r2: "create_job 1 2 3 4 ''n'' (demo_request\<lparr>rq_depends_on := Some [''a'', ''q'']\<rparr>) demo
        = (Inl (HTTPException 400 ''Dependency job q not found''), demo)"
    by simp
  show ?thesis
    using h1 h2 r2
      create_job_rejects_unknown [of demo "demo_request\<lparr>rq_client_id := ''nobody''\<rparr>" 1 2 3 4 "''n''"]
    by blast
qed

text \<open>
  C3 at its failing input. The request depends on the completed job \<open>a\<close> and is scheduled at
  time 100, while every clock reading is 50, so the schedule lies in the future. The branch for
  a non-empty \<^verbatim>\<open>depends_on\<close> never compares \<^verbatim>\<open>scheduled_at\<close> with the clock (only the
  \<^verbatim>\<open>elif\<close> for requests without dependencies does): the job is stored as QUEUED and pushed on
  the Redis list at once.
\<close>

theorem create_job_ignores_schedule_with_dependencies:
  "rq_depends_on (demo_request\<lparr>rq_depends_on := Some [''a''], rq_scheduled_at := Some 100\<rparr>) = Some [''a'']
   \<and> map_option status (automation_jobs demo ''a'') = Some COMPLETED
   \<and> \<not> (100 \<le> (50::int))
   \<and> map_option status
        (automation_jobs
           (snd (create_job 50 50 50 50 ''n''
                   (demo_request\<lparr>rq_depends_on := Some [''a''], rq_scheduled_at := Some 100\<rparr>) demo))
           ''n'') = Some QUEUED
   \<and> redis (snd (create_job 50 50 50 50 ''n''
                   (demo_request\<lparr>rq_depends_on := Some [''a''], rq_scheduled_at := Some 100\<rparr>) demo))
        ''job_queue:1'' = Some [''n'']"
  by (simp add: demo_defs create_job_def deps_of_def initial_status_of_def incomplete_count_def
        Let_def lpush_def job_queue_def broadcast_job_update_def broadcast_to_client_def)

subsection \<open>Broadcasts\<close>

lemma cancel_job_notified:
  assumes "automation_jobs s jid = Some r" and "status r \<in> {PENDING, QUEUED, RUNNING, PAUSED}"
  shows "notified s (snd (cancel_job now ts jid s))
           (job_update_message ts jid CANCELLED None None) (client_id r)"
proof -
  let ?row = "r\<lparr>status := CANCELLED, completed_at := Some now, updated_at := now\<rparr>"
  let ?s1 = "s\<lparr>automation_jobs := (automation_jobs s)(jid \<mapsto> ?row)\<rparr>"
  have "snd (cancel_job now ts jid s)
          = broadcast_job_update ts jid (client_id r) CANCELLED None None ?s1"
    using assms by (auto simp: cancel_job_def Let_def)
  then show ?thesis
    using broadcast_job_update_notified [of ?s1 s ts jid "client_id r" CANCELLED None None]
    by simp
qed

lemma retry_job_notified:
  assumes "automation_jobs s jid = Some r" and "status r \<in> {FAILED, CANCELLED}"
  shows "notified s (snd (retry_job now ts jid s))
           (job_update_message ts jid QUEUED None None) (client_id r)"
proof -
  let ?row = "r\<lparr>status := QUEUED, started_at := None, completed_at := None,
                error := None, result := None,
                retry_count := retry_count r + 1, updated_at := now\<rparr>"
  let ?s1 = "s\<lparr>automation_jobs := (automation_jobs s)(jid \<mapsto> ?row)\<rparr>"
  let ?s2 = "?s1\<lparr>redis := lpush (job_queue (priority ?row)) jid (redis ?s1)\<rparr>"
  have "snd (retry_job now ts jid s)
          = broadcast_job_update ts jid (client_id r) QUEUED None None ?s2"
    using assms by (auto simp: retry_job_def Let_def)
  then show ?thesis
    using broadcast_job_update_notified [of ?s2 s ts jid "client_id r" QUEUED None None]
    by simp
qed

lemma update_job_notified:
  assumes "automation_jobs s jid = Some r" and "build_updates rq \<noteq> []"
  shows "notified s (snd (update_job now ts jid rq s))
           (job_update_message ts jid (case up_status rq of None \<Rightarrow> status r | Some st \<Rightarrow> st)
              (Some (progress r)) None)
           (client_id r)"
proof -
  let ?row = "(fold (apply_assignment now) (build_updates rq) r)\<lparr>updated_at := now\<rparr>"
  let ?s1 = "s\<lparr>automation_jobs := (automation_jobs s)(jid \<mapsto> ?row)\<rparr>"
  have "snd (update_job now ts jid rq s)
          = broadcast_job_update ts jid (client_id ?row) (status ?row) (Some (progress ?row)) None ?s1"
    using assms by (simp add: update_job_def Let_def)
  then have "snd (update_job now ts jid rq s)
          = broadcast_job_update ts jid (client_id r)
              (case up_status rq of None \<Rightarrow> status r | Some st \<Rightarrow> st) (Some (progress r)) None ?s1"
    by (simp add: fold_updates_fields)
  then show ?thesis
    using broadcast_job_update_notified [of ?s1 s ts jid "client_id r" _ "Some (progress r)" None]
    by simp
qed

lemma update_job_nothing:
  assumes "automation_jobs s jid = Some r" and "build_updates rq = []"
  shows "update_job now ts jid rq s = (Inr (JobResponse r None), s)"
  using assms by (simp add: update_job_def)

lemma create_job_notified:
  assumes "\<not> isl (fst (create_job t285 t299 now ts new_id rq s))"
  shows "notified s (snd (create_job t285 t299 now ts new_id rq s))
           (job_update_message ts new_id
              (initial_status_of (automation_jobs s) (deps_of rq)
                 (case rq_scheduled_at rq of Some t \<Rightarrow> t | None \<Rightarrow> t285) t299)
              (Some 0) None)
           (rq_client_id rq)"
proof -
  let ?st = "initial_status_of (automation_jobs s) (deps_of rq)
                 (case rq_scheduled_at rq of Some t \<Rightarrow> t | None \<Rightarrow> t285) t299"
  from assms obtain name where name: "clients s (rq_client_id rq) = Some name"
    by (cases "clients s (rq_client_id rq)") (auto simp: create_job_def)
  from assms name have nf: "find (\<lambda>d. automation_jobs s d = None) (deps_of rq) = None"
    by (cases "find (\<lambda>d. automation_jobs s d = None) (deps_of rq)") (auto simp: create_job_def)
  from assms name nf have fresh: "new_id \<notin> dom (automation_jobs s)"
    by (auto simp: create_job_def Let_def split: if_splits)
  obtain s2 where s2: "snd (create_job t285 t299 now ts new_id rq s)
          = broadcast_job_update ts new_id (rq_client_id rq) ?st (Some 0) None s2"
     "sent_log s2 = sent_log s" "active_connections s2 = active_connections s"
    using name nf fresh by (auto simp: create_job_def Let_def)
  show ?thesis
    using s2(1) broadcast_job_update_notified [OF s2(2,3), of ts new_id "rq_client_id rq" ?st "Some 0" None]
    by simp
qed

text \<open>
  C4 (as the code has it). Every successful create, cancel and retry, and every update that
  carries at least one field, adds exactly one event to the log: the job-update message with the
  job id, the status, the progress, an absent progress message and the timestamp, sent to the
  connections registered for the job's client followed by the global connections, as the
  registry has them when the operation starts. An update that carries no field succeeds, returns
  the row as it is and emits nothing. When the client has no registered list, or there is no
  global connection, the registry is left as it was.
\<close>

theorem mutations_broadcast_once:
  "(automation_jobs s jc = Some rc \<and> status rc \<in> {PENDING, QUEUED, RUNNING, PAUSED} \<longrightarrow>
      notified s (snd (cancel_job now ts jc s))
        (job_update_message ts jc CANCELLED None None) (client_id rc))
   \<and> (automation_jobs s jr = Some rr \<and> status rr \<in> {FAILED, CANCELLED} \<longrightarrow>
      notified s (snd (retry_job now ts jr s))
        (job_update_message ts jr QUEUED None None) (client_id rr))
   \<and> (automation_jobs s ju = Some ru \<and> build_updates rq \<noteq> [] \<longrightarrow>
      notified s (snd (update_job now ts ju rq s))
        (job_update_message ts ju (case up_status rq of None \<Rightarrow> status ru | Some st \<Rightarrow> st)
           (Some (progress ru)) None)
        (client_id ru))
   \<and> (automation_jobs s ju = Some ru \<and> build_updates rq = [] \<longrightarrow>
      update_job now ts ju rq s = (Inr (JobResponse ru None), s))
   \<and> (\<not> isl (fst (create_job t285 t299 now ts new_id crq s)) \<longrightarrow>
      notified s (snd (create_job t285 t299 now ts new_id crq s))
        (job_update_message ts new_id
           (initial_status_of (automation_jobs s) (deps_of crq)
              (case rq_scheduled_at crq of Some t \<Rightarrow> t | None \<Rightarrow> t285) t299)
           (Some 0) None)
        (rq_client_id crq))"
  using cancel_job_notified [of s jc rc now ts] retry_job_notified [of s jr rr now ts]
    update_job_notified [of s ju ru rq now ts] update_job_nothing [of s ju ru rq now ts]
    create_job_notified [of t285 t299 now ts new_id crq s]
  by blast

text \<open>
  The theorem on the small system: cancel of \<open>c\<close>, retry of \<open>b\<close>, a priority update of \<open>a\<close>,
  an empty update of \<open>a\<close> and a creation.
\<close>

theorem mutations_broadcast_once_witness:
  "automation_jobs demo ''c'' = Some row_c \<and> status row_c \<in> {PENDING, QUEUED, RUNNING, PAUSED}
   \<and> automation_jobs demo ''b'' = Some row_b \<and> status row_b \<in> {FAILED, CANCELLED}
   \<and> automation_jobs demo ''a'' = Some row_a
   \<and> build_updates (no_update\<lparr>up_priority := Some HIGH\<rparr>) \<noteq> []
   \<and> build_updates no_update = []
   \<and> \<not> isl (fst (create_job 1 2 7 8 ''n'' demo_request demo))
   \<and> notified demo (snd (cancel_job 7 8 ''c'' demo))
       (job_update_message 8 ''c'' CANCELLED None None) (client_id row_c)
   \<and> notified demo (snd (retry_job 7 8 ''b'' demo))
       (job_update_message 8 ''b'' QUEUED None None) (client_id row_b)
   \<and> notified demo (snd (update_job 7 8 ''a'' (no_update\<lparr>up_priority := Some HIGH\<rparr>) demo))
       (job_update_message 8 ''a'' COMPLETED (Some 100) None) (client_id row_a)
   \<and> update_job 7 8 ''a'' no_update demo = (Inr (JobResponse row_a None), demo)
   \<and> notified demo (snd (create_job 1 2 7 8 ''n'' demo_request demo))
       (job_update_message 8 ''n'' QUEUED (Some 0) None) ''x''"
proof -
  have c: "automation_jobs demo ''c'' = Some row_c \<and> status row_c \<in> {PENDING, QUEUED, RUNNING, PAUSED}"
    by (simp add: demo_defs)
  have b: "automation_jobs demo ''b'' = Some row_b \<and> status row_b \<in> {FAILED, CANCELLED}"
    by (simp add: demo_defs)
  have a: "automation_jobs demo ''a'' = Some row_a"
    by (simp add: demo_defs)
  have u: "build_updates (no_update\<lparr>up_priority := Some HIGH\<rparr>) \<noteq> []"
    by (simp add: demo_defs build_updates_def)
  have e: "build_updates no_update = []"
    by (simp add: demo_defs build_updates_def)
  have n: "\<not> isl (fst (create_job 1 2 7 8 ''n'' demo_request demo))"
    by (simp add: demo_defs create_job_def deps_of_def Let_def)
  have v: "(case up_status (no_update\<lparr>up_priority := Some HIGH\<rparr>) of
              None \<Rightarrow> status row_a | Some st \<Rightarrow> st) = COMPLETED
           \<and> progress row_a = 100
           \<and> initial_status_of (automation_jobs demo) (deps_of demo_request)
               (case rq_scheduled_at demo_request of Some t \<Rightarrow> t | None \<Rightarrow> 1) 2 = QUEUED
           \<and> rq_client_id demo_request = ''x''"
    by (simp add: demo_defs initial_status_of_def deps_of_def)
  show ?thesis
    using c b a u e n v
      mutations_broadcast_once [where s = demo and jc = "''c''" and rc = row_c and jr = "''b''"
        and rr = row_b and ju = "''a''" and ru = row_a
        and rq = "no_update\<lparr>up_priority := Some HIGH\<rparr>" and now = 7 and ts = 8
        and ?t285.0 = 1 and ?t299.0 = 2 and new_id = "''n''" and crq = demo_request]
      mutations_broadcast_once [where s = demo and jc = "''c''" and rc = row_c and jr = "''b''"
        and rr = row_b and ju = "''a''" and ru = row_a
        and rq = no_update and now = 7 and ts = 8
        and ?t285.0 = 1 and ?t299.0 = 2 and new_id = "''n''" and crq = demo_request]
    by simp
qed

text \<open>
  C4 as stated fails twice on the small system. An update without fields succeeds and emits no
  event. And broadcasting changes the registry: \<^verbatim>\<open>extend\<close> works on the registry's own list, so
  after the cancel of \<open>c\<close> the list of client \<open>x\<close> holds the global connection 2 as well, and
  the next event for that client (the retry) is sent to connection 2 twice.
\<close>

theorem broadcast_counterexample:
  "build_updates no_update = []
   \<and> \<not> isl (fst (update_job 7 8 ''c'' no_update demo))
   \<and> sent_log (snd (update_job 7 8 ''c'' no_update demo)) = sent_log demo
   \<and> active_connections demo ''x'' = Some [1]
   \<and> active_connections (snd (cancel_job 7 8 ''c'' demo)) ''x'' = Some [1, 2]
   \<and> map snd (sent_log (snd (retry_job 9 10 ''c'' (snd (cancel_job 7 8 ''c'' demo)))))
       = [[1, 2], [1, 2, 2]]"
  by (simp add: demo_defs update_job_def build_updates_def cancel_job_def retry_job_def Let_def
        lpush_def broadcast_job_update_def broadcast_to_client_def)

subsection \<open>Routing\<close>

lemma match_stats_path:
  assumes "match_path [Lit ''automation'', Lit ''jobs'', Lit ''stats''] p = Some b"
  shows "p = [''automation'', ''jobs'', ''stats'']"
proof -
  obtain x1 p1 where p: "p = x1 # p1" using assms by (cases p) auto
  with assms have x1: "x1 = ''automation''" and m1: "match_path [Lit ''jobs'', Lit ''stats''] p1 = Some b"
    by (auto split: if_splits)
  obtain x2 p2 where p1: "p1 = x2 # p2" using m1 by (cases p1) auto
  with m1 have x2: "x2 = ''jobs''" and m2: "match_path [Lit ''stats''] p2 = Some b"
    by (auto split: if_splits)
  obtain x3 p3 where p2: "p2 = x3 # p3" using m2 by (cases p2) auto
  with m2 have x3: "x3 = ''stats''" and m3: "match_path [] p3 = Some b"
    by (auto split: if_splits)
  have "p3 = []" using m3 by (cases p3) auto
  then show ?thesis using p p1 p2 x1 x2 x3 by simp
qed

lemma first_full_route:
  "first_full rs m p = Some (ep, b) \<Longrightarrow> \<exists>pat. (m, pat, ep) \<in> set rs \<and> match_path pat p = Some b"
  by (induction rs m p rule: first_full.induct) (auto split: option.splits if_splits)

lemma stats_request_goes_to_get_job:
  "first_full router GET [''automation'', ''jobs'', ''stats'']
     = Some (Ep_get_job, [(''job_id'', ''stats'')])"
  by (simp add: router_def)

text \<open>
  C9. A \<^verbatim>\<open>GET\<close> of \<^verbatim>\<open>/automation/jobs/stats\<close> is given to \<^verbatim>\<open>get_job\<close> with \<^verbatim>\<open>job_id\<close> bound to
  the text \<^verbatim>\<open>stats\<close>, because that route is registered first; the text is no UUID, so the
  answer is the validation error. No request, whatever its method and path, is ever given to
  \<^verbatim>\<open>get_job_stats\<close>.
\<close>

theorem stats_route_shadowed:
  "dispatch router GET [''automation'', ''jobs'', ''stats'']
     = Handled Ep_get_job [(''job_id'', ''stats'')]
   \<and> get_job ''stats'' s = Inl RequestValidationError
   \<and> (\<forall>m p b. dispatch router m p \<noteq> Handled Ep_get_job_stats b)"
proof (intro conjI allI)
  show "dispatch router GET [''automation'', ''jobs'', ''stats'']
     = Handled Ep_get_job [(''job_id'', ''stats'')]"
    by (simp add: dispatch_def stats_request_goes_to_get_job)
  show "get_job ''stats'' s = Inl RequestValidationError"
    by (simp add: get_job_def valid_uuid_def)
  fix m p b
  show "dispatch router m p \<noteq> Handled Ep_get_job_stats b"
  proof
    assume "dispatch router m p = Handled Ep_get_job_stats b"
    then have ff: "first_full router m p = Some (Ep_get_job_stats, b)"
      by (auto simp: dispatch_def split: option.splits if_splits)
    then obtain pat where pat: "(m, pat, Ep_get_job_stats) \<in> set router" "match_path pat p = Some b"
      using first_full_route by blast
    from pat(1) have "m = GET" and "pat = [Lit ''automation'', Lit ''jobs'', Lit ''stats'']"
      by (auto simp: router_def)
    with pat(2) have "p = [''automation'', ''jobs'', ''stats'']"
      using match_stats_path by blast
    with ff \<open>m = GET\<close> show False
      by (simp add: stats_request_goes_to_get_job)
  qed
qed

subsection \<open>The scheduling advisor\<close>

lemma date_trunc_whole_seconds:
  assumes "cand mod 1000000 = 0"
  shows "replace_minute_second (cand + hours i) = date_trunc_hour (cand + hours i)"
proof -
  have "(cand + 1000000 * (i * 3600)) mod 1000000 = cand mod 1000000"
    by (rule mod_mult_self2)
  then have "(cand + i * 3600000000) mod 1000000 = 0"
    using assms by (simp add: mult.commute)
  then show ?thesis
    by (simp add: replace_minute_second_def date_trunc_hour_def hours_def)
qed

lemma avoid_busy_walk:
  "\<exists>k. avoid_busy busy c = c + hours (int k)
      \<and> replace_minute_second (c + hours (int k)) \<notin> set busy
      \<and> (\<forall>i<k. replace_minute_second (c + hours (int i)) \<in> set busy)"
proof (induction busy c rule: avoid_busy.induct)
  case (1 busy next_run)
  show ?case
  proof (cases "replace_minute_second next_run \<in> set busy")
    case False
    then have "avoid_busy busy next_run = next_run + hours (int 0)
      \<and> replace_minute_second (next_run + hours (int 0)) \<notin> set busy
      \<and> (\<forall>i<0::nat. replace_minute_second (next_run + hours (int i)) \<in> set busy)"
      by (simp add: hours_def)
    then show ?thesis by blast
  next
    case True
    from "1.IH" [OF True] obtain k where
      k: "avoid_busy busy (next_run + hours 1) = next_run + hours 1 + hours (int k)"
         "replace_minute_second (next_run + hours 1 + hours (int k)) \<notin> set busy"
         "\<forall>i<k. replace_minute_second (next_run + hours 1 + hours (int i)) \<in> set busy"
      by blast
    have shift: "\<And>j. next_run + hours 1 + hours (int j) = next_run + hours (int (Suc j))"
      by (simp add: hours_def algebra_simps)
    have "avoid_busy busy next_run = next_run + hours (int (Suc k))"
      using True k(1) shift by simp
    moreover have "replace_minute_second (next_run + hours (int (Suc k))) \<notin> set busy"
      using k(2) shift by simp
    moreover have "\<forall>i<Suc k. replace_minute_second (next_run + hours (int i)) \<in> set busy"
    proof (intro allI impI)
      fix i assume "i < Suc k"
      show "replace_minute_second (next_run + hours (int i)) \<in> set busy"
      proof (cases i)
        case 0
        then show ?thesis using True by (simp add: hours_def)
      next
        case (Suc j)
        then have "j < k" using \<open>i < Suc k\<close> by simp
        then show ?thesis using k(3) shift Suc by simp
      qed
    qed
    ultimately show ?thesis by blast
  qed
qed

lemma interval_table:
  "interval_for ''health_check'' = hours 6"
  "interval_for ''menu_sync'' = hours 24"
  "interval_for ''golden_copy'' = hours 24"
  "interval_for ''backup'' = hours 12"
  "jt \<notin> {''health_check'', ''menu_sync'', ''golden_copy'', ''backup''} \<Longrightarrow> interval_for jt = hours 24"
  by (simp_all add: interval_for_def intervals_def)

text \<open>
  C8 (as the code has it). The candidate is the last completed run of the type plus the
  interval of the type (health check 6 hours, menu sync and golden copy 24, backup 12, any other
  type 24) unless that lies before now, in which case it is now plus 30 minutes; without a
  completed run it is now plus 1 hour. For a candidate on a whole second, the recommended time
  is the candidate moved forward by the least number of whole hours for which the hour it falls
  in is not busy.
\<close>

theorem recommended_time_walk:
  assumes "cand = candidate_next_run now (last_job_times c rows jt) jt"
      and "busy = busy_hours now (now + hours hours_ahead) rows"
      and "cand mod 1000000 = 0"
  shows "cand = (case last_job_times c rows jt of
                   None \<Rightarrow> now + hours 1
                 | Some lr \<Rightarrow> if lr + interval_for jt < now then now + minutes 30
                              else lr + interval_for jt)
       \<and> interval_for ''health_check'' = hours 6 \<and> interval_for ''menu_sync'' = hours 24
       \<and> interval_for ''golden_copy'' = hours 24 \<and> interval_for ''backup'' = hours 12
       \<and> (jt \<notin> {''health_check'', ''menu_sync'', ''golden_copy'', ''backup''}
            \<longrightarrow> interval_for jt = hours 24)
       \<and> (\<exists>k. recommended_time now hours_ahead c jt rows = cand + hours (int k)
              \<and> date_trunc_hour (cand + hours (int k)) \<notin> set busy
              \<and> (\<forall>i<k. date_trunc_hour (cand + hours (int i)) \<in> set busy))"
proof -
  have c: "cand = (case last_job_times c rows jt of
                   None \<Rightarrow> now + hours 1
                 | Some lr \<Rightarrow> if lr + interval_for jt < now then now + minutes 30
                              else lr + interval_for jt)"
    using assms(1) by (simp add: candidate_next_run_def Let_def split: option.splits)
  have r: "recommended_time now hours_ahead c jt rows = avoid_busy busy cand"
    using assms(1,2) by (simp add: recommended_time_def)
  from avoid_busy_walk [of busy cand] obtain k where
    k: "avoid_busy busy cand = cand + hours (int k)"
       "replace_minute_second (cand + hours (int k)) \<notin> set busy"
       "\<forall>i<k. replace_minute_second (cand + hours (int i)) \<in> set busy"
    by blast
  have w: "recommended_time now hours_ahead c jt rows = cand + hours (int k)
              \<and> date_trunc_hour (cand + hours (int k)) \<notin> set busy
              \<and> (\<forall>i<k. date_trunc_hour (cand + hours (int i)) \<in> set busy)"
    using r k date_trunc_whole_seconds [OF assms(3)] by simp
  show ?thesis
    using c w interval_table by blast
qed

text \<open>
  The theorem on the advisor's table at time 0: the health check of client \<open>x\<close> last completed
  at 0, so the candidate is hour 6, which holds four scheduled jobs and is the only busy hour.
\<close>

theorem recommended_time_walk_witness:
  "hours 6 = candidate_next_run 0 (last_job_times ''x'' demo_rows ''health_check'') ''health_check''
   \<and> [hours 6] = busy_hours 0 (0 + hours 24) demo_rows
   \<and> hours 6 mod 1000000 = 0
   \<and> (\<exists>k. recommended_time 0 24 ''x'' ''health_check'' demo_rows = hours 6 + hours (int k)
          \<and> date_trunc_hour (hours 6 + hours (int k)) \<notin> set [hours 6]
          \<and> (\<forall>i<k. date_trunc_hour (hours 6 + hours (int i)) \<in> set [hours 6]))"
proof -
  have l: "last_job_times ''x'' demo_rows ''health_check'' = Some 0"
    by (simp add: demo_rows_def demo_defs last_job_times_def)
  have h1: "hours 6 = candidate_next_run 0 (last_job_times ''x'' demo_rows ''health_check'') ''health_check''"
    unfolding l
    by (simp add: candidate_next_run_def interval_for_def intervals_def hours_def Let_def)
  have h2: "[hours 6] = busy_hours 0 (0 + hours 24) demo_rows"
    by (simp add: demo_rows_def demo_defs busy_hours_def date_trunc_hour_def hours_def minutes_def
          Let_def)
  have h3: "hours 6 mod 1000000 = 0"
    by (simp add: hours_def)
  from recommended_time_walk [OF h1 h2 h3]
  have ex: "\<exists>k. recommended_time 0 24 ''x'' ''health_check'' demo_rows = hours 6 + hours (int k)
          \<and> date_trunc_hour (hours 6 + hours (int k)) \<notin> set [hours 6]
          \<and> (\<forall>i<k. date_trunc_hour (hours 6 + hours (int i)) \<in> set [hours 6])"
    by (elim conjE) assumption
  show ?thesis
    using h1 h2 h3 ex by (intro conjI) assumption+
qed

text \<open>
  C8 as stated fails: at time 100 hours the last health check (completed at 0) plus 6 hours
  lies in the past; the candidate, and the recommended time, is now plus 30 minutes and not
  the last run plus the interval.
\<close>

theorem candidate_counterexample:
  "last_job_times ''x'' [row_a] ''health_check'' = Some 0
   \<and> interval_for ''health_check'' = hours 6
   \<and> candidate_next_run (hours 100) (last_job_times ''x'' [row_a] ''health_check'') ''health_check''
       = hours 100 + minutes 30
   \<and> hours 100 + minutes 30 \<noteq> 0 + hours 6
   \<and> recommended_time (hours 100) 24 ''x'' ''health_check'' [row_a] = hours 100 + minutes 30"
  by (simp add: demo_defs recommended_time_def last_job_times_def candidate_next_run_def
        interval_for_def intervals_def busy_hours_def date_trunc_hour_def hours_def minutes_def
        Let_def)

text \<open>
  Outside the theorem's hypothesis: a candidate that carries microseconds keeps them under
  \<^verbatim>\<open>replace(minute=0, second=0)\<close>, so it never equals an entry of the busy set and the loop
  does not move it, even when the hour it falls in is busy.
\<close>

lemma avoid_busy_keeps_microseconds:
  "date_trunc_hour (hours 6 + 1) \<in> set [hours 6]
   \<and> replace_minute_second (hours 6 + 1) \<notin> set [hours 6]
   \<and> avoid_busy [hours 6] (hours 6 + 1) = hours 6 + 1"
  by (simp add: replace_minute_second_def date_trunc_hour_def hours_def)

end
